theory Spec2Isabelle
  imports Main
begin

section \<open>JavaScript values\<close>

text \<open>
  The values that flow through the two modules: \<open>undefined\<close>, \<open>null\<close>, booleans,
  numbers (integral ones; NaN and fractions do not occur in what is modelled),
  strings, and plain objects as lists of own properties in insertion order.
\<close>

datatype jsval =
    JUndefined
  | JNull
  | JBool bool
  | JNum int
  | JStr string
  | JObj "(string \<times> jsval) list"

text \<open>ToBoolean, as used by \<open>!x\<close>, \<open>if (x)\<close>, \<open>x && y\<close> and \<open>x || y\<close>.\<close>

fun truthy :: "jsval \<Rightarrow> bool" where
  "truthy JUndefined = False"
| "truthy JNull = False"
| "truthy (JBool b) = b"
| "truthy (JNum n) = (n \<noteq> 0)"
| "truthy (JStr s) = (s \<noteq> [])"
| "truthy (JObj fs) = True"

fun nullish :: "jsval \<Rightarrow> bool" where
  "nullish JUndefined = True"
| "nullish JNull = True"
| "nullish v = False"

text \<open>
  \<open>v[k]\<close> for a value that is neither \<open>undefined\<close> nor \<open>null\<close>. The keys read by the
  code are \<open>gateway_account\<close>, \<open>gateway_account_id\<close>, \<open>serviceName\<close> and a header name;
  a primitive has none of them, so it answers \<open>undefined\<close>.
\<close>

fun get_prop :: "jsval \<Rightarrow> string \<Rightarrow> jsval" where
  "get_prop (JObj fs) k = (case map_of fs k of None \<Rightarrow> JUndefined | Some v \<Rightarrow> v)"
| "get_prop v k = JUndefined"

datatype js_exn = TypeError

text \<open>
  The member expression \<open>v.k\<close>: reading a property of \<open>undefined\<close> or \<open>null\<close> throws a
  TypeError.
\<close>

definition member :: "jsval \<Rightarrow> string \<Rightarrow> js_exn + jsval" where
  "member v k = (if nullish v then Inl TypeError else Inr (get_prop v k))"

text \<open>
  \<open>lodash.get(object, path)\<close> without a default: walks the path while the current
  value is not nullish; answers \<open>undefined\<close> when it stops early.
\<close>

fun lodash_get :: "jsval \<Rightarrow> string list \<Rightarrow> jsval" where
  "lodash_get v [] = v"
| "lodash_get v (k # ks) = (if nullish v then JUndefined else lodash_get (get_prop v k) ks)"

section \<open>The service cache\<close>

text \<open>
  A service metadata object, as the downstream client resolves it, is a plain object;
  it is kept as its list of properties and injected into \<^typ>\<open>jsval\<close> by \<^const>\<open>JObj\<close>.
\<close>

type_synonym service = "(string \<times> jsval) list"

record cache_entry =
  entry_value :: service
  entry_expire :: nat

type_synonym cache = "jsval \<rightharpoonup> cache_entry"

text \<open>
  Modelled from the spec: the \<open>memory-cache\<close> store behind \<open>serviceCache\<close> is a library
  outside the repository. An entry is keyed by the gateway account identifier, holds a
  service metadata object and a fixed time-to-live; an entry put with TTL \<open>T\<close> is
  present when queried less than \<open>T\<close> after insertion and absent more than \<open>T\<close> after
  it. The spec is silent about exactly \<open>T\<close>; the model treats the entry as gone then.
  Time is the millisecond clock. A miss answers \<open>null\<close>.
\<close>

definition cache_put :: "cache \<Rightarrow> nat \<Rightarrow> jsval \<Rightarrow> service \<Rightarrow> nat \<Rightarrow> cache" where
  "cache_put c now k v ttl = c(k \<mapsto> \<lparr>entry_value = v, entry_expire = now + ttl\<rparr>)"

definition cache_get :: "cache \<Rightarrow> nat \<Rightarrow> jsval \<Rightarrow> jsval" where
  "cache_get c now k =
     (case c k of
        None \<Rightarrow> JNull
      | Some e \<Rightarrow> if now < entry_expire e then JObj (entry_value e) else JNull)"

section \<open>The cache middleware\<close>

record request =
  chargeId :: jsval
  chargeData :: jsval
  req_headers :: "(string \<times> jsval) list"

text \<open>
  What the middleware does to the outside world, in order: the response router, the
  cache, the downstream client, the logger, the next pipeline stage, and a rejection
  that nothing handles.
\<close>

datatype event =
    RouterResponse string
  | CacheGet jsval
  | FindServiceBy jsval jsval
  | CachePut jsval service nat
  | LoggerError jsval
  | Next
  | UnhandledRejection js_exn

text \<open>
  Modelled from the spec: the downstream client's \<open>findServiceBy({ gatewayAccountId })\<close>
  is outside the repository; it answers a promise that resolves to a service metadata
  object or rejects.
\<close>

datatype fetch_result = Resolved service | Rejected

record config =
  SERVICE_CACHE_MAX_AGE :: nat
  CORRELATION_HEADER :: string

record mw_state =
  serviceCache :: cache
  res_locals :: "string \<rightharpoonup> jsval"
  events :: "event list"

definition emit :: "event \<Rightarrow> mw_state \<Rightarrow> mw_state" where
  "emit e st = st\<lparr>events := events st @ [e]\<rparr>"

definition set_service :: "jsval \<Rightarrow> mw_state \<Rightarrow> mw_state" where
  "set_service v st = st\<lparr>res_locals := (res_locals st)(''service'' \<mapsto> v)\<rparr>"

text \<open>
  The \<open>.catch\<close> callback: the template literal reads
  \<open>req.chargeData.gateway_account.serviceName\<close> before \<open>logger.error\<close> and \<open>next()\<close>
  run; when one of the two member reads throws, the callback ends there and the promise
  it belongs to rejects.
\<close>

definition catch_handler :: "request \<Rightarrow> mw_state \<Rightarrow> mw_state" where
  "catch_handler req st =
     (case member (chargeData req) ''gateway_account'' of
        Inl x \<Rightarrow> emit (UnhandledRejection x) st
      | Inr gateway_account \<Rightarrow>
          (case member gateway_account ''serviceName'' of
             Inl x \<Rightarrow> emit (UnhandledRejection x) st
           | Inr serviceName \<Rightarrow> emit Next (emit (LoggerError serviceName) st)))"

text \<open>
  The \<open>.then\<close> callback: \<open>serviceCache.put\<close>, \<open>res.locals.service = service\<close>, \<open>next()\<close>.
  \<open>settled\<close> is the clock when the promise resolves.
\<close>

definition then_handler :: "config \<Rightarrow> nat \<Rightarrow> jsval \<Rightarrow> service \<Rightarrow> mw_state \<Rightarrow> mw_state" where
  "then_handler cfg settled gatewayAccountId service st =
     emit Next
       (set_service (JObj service)
         (emit (CachePut gatewayAccountId service (SERVICE_CACHE_MAX_AGE cfg))
           (st\<lparr>serviceCache :=
                 cache_put (serviceCache st) settled gatewayAccountId service
                   (SERVICE_CACHE_MAX_AGE cfg)\<rparr>)))"

text \<open>
  \<open>lodash.get(req, 'chargeData.gateway_account.gateway_account_id')\<close>; the first step
  of the path, \<open>chargeData\<close>, is the record field.
\<close>

definition gatewayAccountId_of :: "request \<Rightarrow> jsval" where
  "gatewayAccountId_of req =
     lodash_get (chargeData req) [''gateway_account'', ''gateway_account_id'']"

text \<open>
  The exported middleware \<open>(req, res, next)\<close>. \<open>now\<close> is the clock when it runs,
  \<open>findServiceBy\<close> the downstream operation, given the correlation id the client was
  built with and the account identifier.
\<close>

definition middleware ::
  "config \<Rightarrow> (jsval \<Rightarrow> jsval \<Rightarrow> fetch_result) \<Rightarrow> nat \<Rightarrow> nat \<Rightarrow> request \<Rightarrow> mw_state \<Rightarrow> mw_state"
where
  "middleware cfg findServiceBy now settled req st =
     (let gatewayAccountId = gatewayAccountId_of req
      in
        if \<not> truthy (chargeId req) \<and> \<not> truthy (chargeData req)
        then emit (RouterResponse ''UNAUTHORISED'') st
        else
          let cachedService = cache_get (serviceCache st) now gatewayAccountId;
              st1 = emit (CacheGet gatewayAccountId) st
          in
            if truthy cachedService
            then emit Next (set_service cachedService st1)
            else
              let correlationId = get_prop (JObj (req_headers req)) (CORRELATION_HEADER cfg);
                  st2 = emit (FindServiceBy correlationId gatewayAccountId) st1
              in
                (case findServiceBy correlationId gatewayAccountId of
                   Resolved service \<Rightarrow> then_handler cfg settled gatewayAccountId service st2
                 | Rejected \<Rightarrow> catch_handler req st2))"

text \<open>The events a run adds to those already recorded.\<close>

definition new_events :: "mw_state \<Rightarrow> mw_state \<Rightarrow> event list" where
  "new_events st st' = drop (length (events st)) (events st')"

text \<open>
  Requests handled one after the other, each to its end before the next starts; an
  arrival is the downstream behaviour it meets, its two clock readings and the request.
\<close>

type_synonym arrival = "(jsval \<Rightarrow> jsval \<Rightarrow> fetch_result) \<times> nat \<times> nat \<times> request"

fun serve :: "config \<Rightarrow> arrival list \<Rightarrow> mw_state \<Rightarrow> mw_state" where
  "serve cfg [] st = st"
| "serve cfg ((f, now, settled, req) # rs) st =
     serve cfg rs (middleware cfg f now settled req st)"

definition arrival_time :: "arrival \<Rightarrow> nat" where
  "arrival_time a = fst (snd a)"

subsection \<open>Sample requests\<close>

definition cfg_default :: config where
  "cfg_default = \<lparr>SERVICE_CACHE_MAX_AGE = 900000, CORRELATION_HEADER = ''x-request-id''\<rparr>"

definition st_empty :: mw_state where
  "st_empty = \<lparr>serviceCache = Map.empty, res_locals = Map.empty, events = []\<rparr>"

definition service_shop :: service where
  "service_shop = [(''name'', JStr ''Shop'')]"

definition req_anonymous :: request where
  "req_anonymous = \<lparr>chargeId = JUndefined, chargeData = JUndefined, req_headers = []\<rparr>"

definition req_account7 :: request where
  "req_account7 =
     \<lparr>chargeId = JStr ''ch_1'',
      chargeData =
        JObj [(''gateway_account'',
               JObj [(''gateway_account_id'', JNum 7), (''serviceName'', JStr ''Shop'')])],
      req_headers = [(''x-request-id'', JStr ''abc'')]\<rparr>"

definition req_chargeId_only :: request where
  "req_chargeId_only =
     \<lparr>chargeId = JStr ''ch_1'', chargeData = JUndefined, req_headers = []\<rparr>"

definition req_other_chargeId_only :: request where
  "req_other_chargeId_only =
     \<lparr>chargeId = JStr ''ch_2'', chargeData = JUndefined,
      req_headers = [(''x-request-id'', JStr ''xyz'')]\<rparr>"

section \<open>The outbound request client\<close>

subsection \<open>Retry policy\<close>

text \<open>
  What one attempt hands to the retry strategy: an error (with its \<open>code\<close>, when it has
  one) and no response, or a response with its status and body and a null error.
\<close>

record net_error =
  code :: "string option"

datatype outcome = Failure net_error | HttpResponse nat jsval

fun err_of :: "outcome \<Rightarrow> net_error option" where
  "err_of (Failure e) = Some e"
| "err_of (HttpResponse status b) = None"

definition RETRIABLE_ERRORS :: "string list" where
  "RETRIABLE_ERRORS = [''ECONNRESET'']"

text \<open>\<open>err && _.includes(RETRIABLE_ERRORS, err.code)\<close>, read as a condition.\<close>

definition retryOnEconnreset :: "net_error option \<Rightarrow> bool" where
  "retryOnEconnreset err =
     (case err of
        None \<Rightarrow> False
      | Some e \<Rightarrow> (case code e of None \<Rightarrow> False | Some c \<Rightarrow> c \<in> set RETRIABLE_ERRORS))"

record retry_options =
  maxAttempts :: nat
  retryDelay :: nat
  retryStrategy :: "net_error option \<Rightarrow> bool"

text \<open>The defaults the client is built with (\<open>json: true\<close> does not bear on retrying).\<close>

definition client_defaults :: retry_options where
  "client_defaults =
     \<lparr>maxAttempts = 3, retryDelay = 5000, retryStrategy = retryOnEconnreset\<rparr>"

record retry_result =
  attempts :: nat
  delays :: "nat list"
  final :: outcome

text \<open>
  Modelled from the spec: the attempt loop belongs to the \<open>requestretry\<close> library, outside
  the repository. It makes up to \<open>maxAttempts\<close> attempts in total, waits \<open>retryDelay\<close>
  between two attempts, and goes on to another attempt only when the retry strategy
  accepts the outcome of the last one; otherwise, or when the attempts are used up, the
  last outcome goes to the caller's callback. \<open>transport i\<close> is the outcome of attempt
  number \<open>i\<close> (from 0), \<open>left\<close> the attempts still allowed after this one.
\<close>

fun attempt_loop :: "retry_options \<Rightarrow> (nat \<Rightarrow> outcome) \<Rightarrow> nat \<Rightarrow> nat \<Rightarrow> retry_result" where
  "attempt_loop opts transport i 0 =
     \<lparr>attempts = Suc i, delays = [], final = transport i\<rparr>"
| "attempt_loop opts transport i (Suc left) =
     (if retryStrategy opts (err_of (transport i))
      then (let r = attempt_loop opts transport (Suc i) left
            in r\<lparr>delays := retryDelay opts # delays r\<rparr>)
      else \<lparr>attempts = Suc i, delays = [], final = transport i\<rparr>)"

definition client :: "(nat \<Rightarrow> outcome) \<Rightarrow> retry_result" where
  "client transport =
     attempt_loop client_defaults transport 0 (maxAttempts client_defaults - 1)"

subsection \<open>URLs\<close>

record parsed_url =
  protocol :: "string option"
  hostname :: "string option"
  port :: "string option"
  path :: string

definition is_digit :: "char \<Rightarrow> bool" where
  "is_digit c = (c \<in> set ''0123456789'')"

definition is_scheme_char :: "char \<Rightarrow> bool" where
  "is_scheme_char c =
     (c \<in> set ''abcdefghijklmnopqrstuvwxyzABCDEFGHIJKLMNOPQRSTUVWXYZ0123456789.+-'')"

definition ends_host :: "char \<Rightarrow> bool" where
  "ends_host c = (c \<in> set ''/?#'')"

text \<open>
  Modelled from the spec: \<open>url.parse\<close> is the Node.js library's, outside the repository.
  The model answers what the client reads, the protocol, the hostname and the port, for
  an absolute URL \<open>scheme://[userinfo@]host[:port][/path][?query][#fragment]\<close>; a string
  without the \<open>//\<close> authority has a null hostname and a null port, and a host with no
  digits after its last colon has a null port. Letters are not lower-cased.
\<close>

definition urlParse :: "string \<Rightarrow> parsed_url" where
  "urlParse url =
     (let scheme = takeWhile is_scheme_char url;
          rest = dropWhile is_scheme_char url
      in
        if scheme \<noteq> [] \<and> take 1 rest = '':'' then
          (let proto = Some (scheme @ '':'');
               rest1 = drop 1 rest
           in
             if take 2 rest1 = ''//'' then
               (let after = drop 2 rest1;
                    authority = takeWhile (\<lambda>c. \<not> ends_host c) after;
                    hostport = rev (takeWhile (\<lambda>c. c \<noteq> CHR ''@'') (rev authority));
                    rdigits = takeWhile is_digit (rev hostport);
                    rhost = dropWhile is_digit (rev hostport)
                in
                  if take 1 rhost = '':'' then
                    \<lparr>protocol = proto, hostname = Some (rev (drop 1 rhost)),
                     port = (if rdigits = [] then None else Some (rev rdigits)),
                     path = dropWhile (\<lambda>c. \<not> ends_host c) after\<rparr>
                  else
                    \<lparr>protocol = proto, hostname = Some hostport, port = None,
                     path = dropWhile (\<lambda>c. \<not> ends_host c) after\<rparr>)
             else \<lparr>protocol = proto, hostname = None, port = None, path = rest1\<rparr>)
        else \<lparr>protocol = None, hostname = None, port = None, path = url\<rparr>)"

subsection \<open>Headers\<close>

text \<open>
  A header object: string keys with string values. \<open>args\<close> is the caller's argument
  object with its optional \<open>payload\<close>, \<open>qs\<close>, \<open>headers\<close> and \<open>correlationId\<close>
  (\<^const>\<open>JUndefined\<close> and \<^const>\<open>None\<close> for an absent one).
\<close>

type_synonym header_map = "string \<rightharpoonup> string"

record args =
  payload :: jsval
  qs :: jsval
  headers :: "header_map option"
  correlationId :: "string option"

record segment =
  trace_id :: string
  segment_id :: string

record segmentData =
  clsSegment :: "segment option"
  subSegment :: "segment option"

text \<open>
  What the module reads from its surroundings: the correlation header's name (a constant
  of \<open>./correlation_header\<close>, outside the sources at hand), \<open>process.env.FORWARD_PROXY_URL\<close>,
  the segment the continuation-local namespace holds (\<^const>\<open>None\<close> when there is no
  namespace or no segment), and the X-Ray constructor: \<open>new_Segment env name parent\<close> is
  the segment that \<open>new AWSXRay.Segment(name, null, parent)\<close> creates, with its newly
  generated id.
\<close>

record client_env =
  CORRELATION_HEADER_NAME :: string
  FORWARD_PROXY_URL :: "string option"
  cls_segment :: "segment option"
  new_Segment :: "string \<Rightarrow> string \<Rightarrow> segment"

text \<open>\<open>args.correlationId || ''\<close> on a string or \<open>undefined\<close>.\<close>

definition or_empty :: "string option \<Rightarrow> string" where
  "or_empty v = (case v of None \<Rightarrow> [] | Some s \<Rightarrow> if s \<noteq> [] then s else [])"

text \<open>\<open>hostname + port\<close>, where a null hostname is written \<open>null\<close> by the concatenation.\<close>

definition concat_hostname :: "string option \<Rightarrow> string \<Rightarrow> string" where
  "concat_hostname h p = (case h of None \<Rightarrow> ''null'' | Some s \<Rightarrow> s) @ p"

text \<open>
  \<open>_.merge(headers, args.headers)\<close> on flat header objects: every key of the source is
  assigned over the destination; an absent source changes nothing.
\<close>

definition lodash_merge :: "header_map \<Rightarrow> header_map option \<Rightarrow> header_map" where
  "lodash_merge h src = (case src of None \<Rightarrow> h | Some s \<Rightarrow> h ++ s)"

text \<open>
  \<open>getHeaders\<close> in three steps: the headers as they are when the debug line prints them,
  then the trace header, then the merge with the caller's headers.
\<close>

definition headers_before_trace :: "client_env \<Rightarrow> args \<Rightarrow> string \<Rightarrow> header_map" where
  "headers_before_trace env a url =
     (let h0 = Map.empty(''Content-Type'' \<mapsto> ''application/json'');
          h1 = h0(CORRELATION_HEADER_NAME env \<mapsto> or_empty (correlationId a))
      in
        if url \<noteq> [] then
          (let p = (case port (urlParse url) of
                      None \<Rightarrow> []
                    | Some n \<Rightarrow> if n \<noteq> [] then '':'' @ n else [])
           in h1(''host'' \<mapsto> concat_hostname (hostname (urlParse url)) p))
        else h1)"

definition computed_headers ::
  "client_env \<Rightarrow> args \<Rightarrow> segmentData \<Rightarrow> string \<Rightarrow> header_map"
where
  "computed_headers env a sd url =
     (let h = headers_before_trace env a url
      in
        case clsSegment sd of
          None \<Rightarrow> h
        | Some cls \<Rightarrow>
            (let sub = (case subSegment sd of
                          Some s \<Rightarrow> s
                        | None \<Rightarrow> new_Segment env ''_request'' (trace_id cls))
             in h(''X-Amzn-Trace-Id'' \<mapsto>
                    concat [''Root='', trace_id cls, '';Parent='', segment_id sub,
                            '';Sampled=1''])))"

definition getHeaders :: "client_env \<Rightarrow> args \<Rightarrow> segmentData \<Rightarrow> string \<Rightarrow> header_map" where
  "getHeaders env a sd url = lodash_merge (computed_headers env a sd url) (headers a)"

subsection \<open>Issuing a request\<close>

datatype agent = HttpAgent | HttpsAgent

text \<open>
  \<open>urlOrForwardProxy\<close> is the URL string itself, or the parsed URL object with two of its
  fields overwritten.
\<close>

datatype uri_target = UriString string | UriObject parsed_url

text \<open>
  What \<open>'...' + urlOrForwardProxy\<close> appends: the URL string as it is; for the parsed URL
  object, which has no string form of its own, the text \<open>[object Object]\<close>.
\<close>

fun uri_to_string :: "uri_target \<Rightarrow> string" where
  "uri_to_string (UriString s) = s"
| "uri_to_string (UriObject u) = ''[object Object]''"

text \<open>
  The two debug lines: the \<open>target uri\<close> line with its text, and the \<open>headers\<close> line with
  the header object that it serialises.
\<close>

datatype log_line = Debug string | DebugHeaders header_map

record requestOptions =
  uri :: uri_target
  opt_method :: string
  agent :: agent
  opt_headers :: header_map
  body :: "jsval option"
  opt_qs :: "jsval option"

definition urlOrForwardProxy :: "client_env \<Rightarrow> string \<Rightarrow> uri_target" where
  "urlOrForwardProxy env url =
     (case FORWARD_PROXY_URL env of
        None \<Rightarrow> UriString url
      | Some proxy \<Rightarrow>
          if proxy \<noteq> [] then
            UriObject ((urlParse url)\<lparr>hostname := hostname (urlParse proxy),
                                      port := port (urlParse proxy)\<rparr>)
          else UriString url)"

text \<open>
  \<open>_request\<close>: the options handed to the retrying client, and the debug lines written on
  the way, in order.
\<close>

definition private_request ::
  "client_env \<Rightarrow> string \<Rightarrow> string \<Rightarrow> args \<Rightarrow> segment option \<Rightarrow> log_line list \<times> requestOptions"
where
  "private_request env methodName url a sub =
     (let ag = (if protocol (urlParse url) = Some ''http:'' then HttpAgent else HttpsAgent);
          sd = \<lparr>clsSegment = cls_segment env, subSegment = sub\<rparr>
      in
        ([Debug (''base_client2 target uri: '' @ uri_to_string (urlOrForwardProxy env url)),
          DebugHeaders (headers_before_trace env a url)],
         \<lparr>uri = urlOrForwardProxy env url,
          opt_method = methodName,
          agent = ag,
          opt_headers = getHeaders env a sd url,
          body = (if truthy (payload a) then Some (payload a) else None),
          opt_qs = (if truthy (qs a) then Some (qs a) else None)\<rparr>))"

text \<open>The exported methods; only \<open>get\<close> passes a sub-segment on.\<close>

definition client_get ::
  "client_env \<Rightarrow> string \<Rightarrow> args \<Rightarrow> segment option \<Rightarrow> log_line list \<times> requestOptions"
where
  "client_get env url a sub = private_request env ''GET'' url a sub"

definition client_post :: "client_env \<Rightarrow> string \<Rightarrow> args \<Rightarrow> log_line list \<times> requestOptions" where
  "client_post env url a = private_request env ''POST'' url a None"

definition client_put :: "client_env \<Rightarrow> string \<Rightarrow> args \<Rightarrow> log_line list \<times> requestOptions" where
  "client_put env url a = private_request env ''PUT'' url a None"

definition client_patch :: "client_env \<Rightarrow> string \<Rightarrow> args \<Rightarrow> log_line list \<times> requestOptions" where
  "client_patch env url a = private_request env ''PATCH'' url a None"

definition client_delete :: "client_env \<Rightarrow> string \<Rightarrow> args \<Rightarrow> log_line list \<times> requestOptions" where
  "client_delete env url a = private_request env ''DELETE'' url a None"

subsection \<open>Sample calls\<close>

definition env_plain :: client_env where
  "env_plain =
     \<lparr>CORRELATION_HEADER_NAME = ''x-request-id'',
      FORWARD_PROXY_URL = None,
      cls_segment = None,
      new_Segment = (\<lambda>name parent. \<lparr>trace_id = parent, segment_id = ''53995c3f42cd8ad8''\<rparr>)\<rparr>"


definition env_traced :: client_env where
  "env_traced =
     env_plain\<lparr>cls_segment :=
       Some \<lparr>trace_id = ''1-581cf771-a006649127e371903a2de979'',
             segment_id = ''70de5b6f19ff9a0a''\<rparr>\<rparr>"

definition args_plain :: args where
  "args_plain =
     \<lparr>payload = JUndefined, qs = JUndefined, headers = None, correlationId = Some ''abc''\<rparr>"

definition args_custom :: args where
  "args_custom =
     args_plain\<lparr>headers :=
       Some [''Content-Type'' \<mapsto> ''text/plain'', ''x-api-key'' \<mapsto> ''k1'']\<rparr>"

definition econnreset :: outcome where
  "econnreset = Failure \<lparr>code = Some ''ECONNRESET''\<rparr>"

definition etimedout :: outcome where
  "etimedout = Failure \<lparr>code = Some ''ETIMEDOUT''\<rparr>"

section \<open>Properties of the cache middleware\<close>

subsection \<open>The four ways through the middleware\<close>

lemma new_events_append:
  "events st' = events st @ es \<Longrightarrow> new_events st st' = es"
  by (simp add: new_events_def)

lemma cache_get_live:
  "c k = Some e \<Longrightarrow> now < entry_expire e \<Longrightarrow> cache_get c now k = JObj (entry_value e)"
  by (simp add: cache_get_def)

lemma cache_get_cases: "cache_get c now k = JNull \<or> (\<exists>s. cache_get c now k = JObj s)"
  by (simp add: cache_get_def split: option.split)

lemma mw_unauthorised:
  "\<not> truthy (chargeId req) \<Longrightarrow> \<not> truthy (chargeData req) \<Longrightarrow>
   middleware cfg fsb now settled req st =
     st\<lparr>events := events st @ [RouterResponse ''UNAUTHORISED'']\<rparr>"
  by (simp add: middleware_def emit_def)

lemma mw_hit:
  assumes "truthy (chargeId req) \<or> truthy (chargeData req)"
    and "cache_get (serviceCache st) now (gatewayAccountId_of req) = JObj s"
  shows "middleware cfg fsb now settled req st =
     st\<lparr>res_locals := (res_locals st)(''service'' \<mapsto> JObj s),
        events := events st @ [CacheGet (gatewayAccountId_of req), Next]\<rparr>"
  using assms by (auto simp add: middleware_def emit_def set_service_def Let_def)

lemma mw_resolved:
  assumes "truthy (chargeId req) \<or> truthy (chargeData req)"
    and "cache_get (serviceCache st) now (gatewayAccountId_of req) = JNull"
    and "fsb (get_prop (JObj (req_headers req)) (CORRELATION_HEADER cfg))
           (gatewayAccountId_of req) = Resolved v"
  shows "middleware cfg fsb now settled req st =
     st\<lparr>serviceCache :=
          cache_put (serviceCache st) settled (gatewayAccountId_of req) v
            (SERVICE_CACHE_MAX_AGE cfg),
        res_locals := (res_locals st)(''service'' \<mapsto> JObj v),
        events := events st @
          [CacheGet (gatewayAccountId_of req),
           FindServiceBy (get_prop (JObj (req_headers req)) (CORRELATION_HEADER cfg))
             (gatewayAccountId_of req),
           CachePut (gatewayAccountId_of req) v (SERVICE_CACHE_MAX_AGE cfg), Next]\<rparr>"
  using assms
  by (auto simp add: middleware_def emit_def set_service_def then_handler_def Let_def)

lemma mw_rejected:
  assumes "truthy (chargeId req) \<or> truthy (chargeData req)"
    and "cache_get (serviceCache st) now (gatewayAccountId_of req) = JNull"
    and "fsb (get_prop (JObj (req_headers req)) (CORRELATION_HEADER cfg))
           (gatewayAccountId_of req) = Rejected"
  shows "middleware cfg fsb now settled req st =
     catch_handler req
       (st\<lparr>events := events st @
          [CacheGet (gatewayAccountId_of req),
           FindServiceBy (get_prop (JObj (req_headers req)) (CORRELATION_HEADER cfg))
             (gatewayAccountId_of req)]\<rparr>)"
  using assms
  by (auto simp add: middleware_def emit_def Let_def)

subsection \<open>Live entries stay\<close>

lemma catch_handler_cache: "serviceCache (catch_handler req st) = serviceCache st"
  by (simp add: catch_handler_def emit_def split: sum.split)

lemma catch_handler_locals: "res_locals (catch_handler req st) = res_locals st"
  by (simp add: catch_handler_def emit_def split: sum.split)

lemma middleware_keeps_live_entry:
  assumes e: "serviceCache st k = Some e" and live: "now < entry_expire e"
  shows "serviceCache (middleware cfg fsb now settled req st) k = Some e"
proof (cases "truthy (chargeId req) \<or> truthy (chargeData req)")
  case False
  then show ?thesis using e by (simp add: mw_unauthorised)
next
  case auth: True
  show ?thesis
  proof (cases "gatewayAccountId_of req = k")
    case True
    have "cache_get (serviceCache st) now (gatewayAccountId_of req) = JObj (entry_value e)"
      using True e live by (simp add: cache_get_live)
    then show ?thesis using e by (simp add: mw_hit [OF auth])
  next
    case other: False
    from cache_get_cases [of "serviceCache st" now "gatewayAccountId_of req"]
    show ?thesis
    proof
      assume miss: "cache_get (serviceCache st) now (gatewayAccountId_of req) = JNull"
      show ?thesis
      proof (cases "fsb (get_prop (JObj (req_headers req)) (CORRELATION_HEADER cfg))
                      (gatewayAccountId_of req)")
        case (Resolved v)
        then show ?thesis using e other
          by (simp add: mw_resolved [OF auth miss] cache_put_def)
      next
        case Rejected
        then show ?thesis using e
          by (simp add: mw_rejected [OF auth miss] catch_handler_cache)
      qed
    next
      assume "\<exists>s. cache_get (serviceCache st) now (gatewayAccountId_of req) = JObj s"
      then obtain s where "cache_get (serviceCache st) now (gatewayAccountId_of req) = JObj s" ..
      then show ?thesis using e by (simp add: mw_hit [OF auth])
    qed
  qed
qed

lemma serve_keeps_live_entry:
  "serviceCache st k = Some e \<Longrightarrow> list_all (\<lambda>a. arrival_time a < entry_expire e) rs \<Longrightarrow>
   serviceCache (serve cfg rs st) k = Some e"
proof (induction rs arbitrary: st)
  case Nil
  then show ?case by simp
next
  case (Cons a rs)
  obtain f now settled req where a: "a = (f, now, settled, req)"
    by (cases a) auto
  from Cons.prems have "now < entry_expire e" and rest: "list_all (\<lambda>a. arrival_time a < entry_expire e) rs"
    by (simp_all add: a arrival_time_def)
  then have "serviceCache (middleware cfg f now settled req st) k = Some e"
    using Cons.prems(1) by (simp add: middleware_keeps_live_entry)
  then show ?case using Cons.IH rest by (simp add: a)
qed


subsection \<open>Requests without a charge\<close>

text \<open>
  C1. A request in which neither \<open>req.chargeId\<close> nor \<open>req.chargeData\<close> is present (both
  are falsy) makes the middleware call the response router with \<open>'UNAUTHORISED'\<close> and
  nothing else: the cache is not read, \<open>findServiceBy\<close> is not called, the next stage is
  not called, and neither the cache nor the response locals change.
\<close>

theorem unauthorised_short_circuit:
  assumes "\<not> truthy (chargeId req)" and "\<not> truthy (chargeData req)"
  shows "events (middleware cfg fsb now settled req st) =
           events st @ [RouterResponse ''UNAUTHORISED'']
       \<and> new_events st (middleware cfg fsb now settled req st) =
           [RouterResponse ''UNAUTHORISED'']
       \<and> (\<forall>k. CacheGet k \<notin> set (new_events st (middleware cfg fsb now settled req st)))
       \<and> (\<forall>c k. FindServiceBy c k \<notin> set (new_events st (middleware cfg fsb now settled req st)))
       \<and> Next \<notin> set (new_events st (middleware cfg fsb now settled req st))
       \<and> serviceCache (middleware cfg fsb now settled req st) = serviceCache st
       \<and> res_locals (middleware cfg fsb now settled req st) = res_locals st"
  using assms by (simp add: mw_unauthorised new_events_def)

theorem unauthorised_short_circuit_witness:
  "\<not> truthy (chargeId req_anonymous) \<and> \<not> truthy (chargeData req_anonymous)
   \<and> events (middleware cfg_default (\<lambda>c k. Resolved service_shop) 0 0 req_anonymous st_empty) =
       [RouterResponse ''UNAUTHORISED'']
   \<and> serviceCache (middleware cfg_default (\<lambda>c k. Resolved service_shop) 0 0 req_anonymous st_empty) =
       Map.empty"
  using unauthorised_short_circuit
    [of req_anonymous cfg_default "\<lambda>c k. Resolved service_shop" 0 0 st_empty]
  by (simp add: req_anonymous_def st_empty_def)

subsection \<open>Cache hit\<close>

text \<open>
  C2. A request that passes the check and whose gateway account identifier has a live
  entry in the service cache: \<open>findServiceBy\<close> is not called, \<open>res.locals.service\<close> is
  the cached value as stored, and the next stage is called.
\<close>

theorem cache_hit_serves_cached_value:
  assumes "truthy (chargeId req) \<or> truthy (chargeData req)"
    and "serviceCache st (gatewayAccountId_of req) = Some e"
    and "now < entry_expire e"
  shows "new_events st (middleware cfg fsb now settled req st) =
           [CacheGet (gatewayAccountId_of req), Next]
       \<and> (\<forall>c k. FindServiceBy c k \<notin> set (new_events st (middleware cfg fsb now settled req st)))
       \<and> res_locals (middleware cfg fsb now settled req st) =
           (res_locals st)(''service'' \<mapsto> JObj (entry_value e))
       \<and> serviceCache (middleware cfg fsb now settled req st) = serviceCache st"
proof -
  have "cache_get (serviceCache st) now (gatewayAccountId_of req) = JObj (entry_value e)"
    using assms(2,3) by (rule cache_get_live)
  from mw_hit [OF assms(1) this] show ?thesis
    by (simp add: new_events_def)
qed

lemma gatewayAccountId_of_account7: "gatewayAccountId_of req_account7 = JNum 7"
  by (simp add: gatewayAccountId_of_def req_account7_def)

lemma gatewayAccountId_of_chargeId_only: "gatewayAccountId_of req_chargeId_only = JUndefined"
  by (simp add: gatewayAccountId_of_def req_chargeId_only_def)

theorem cache_hit_serves_cached_value_witness:
  "(truthy (chargeId req_account7) \<or> truthy (chargeData req_account7))
   \<and> (10::nat) < 1000
   \<and> new_events
        (st_empty\<lparr>serviceCache :=
            [JNum 7 \<mapsto> \<lparr>entry_value = service_shop, entry_expire = 1000\<rparr>]\<rparr>)
        (middleware cfg_default (\<lambda>c k. Rejected) 10 20 req_account7
          (st_empty\<lparr>serviceCache :=
              [JNum 7 \<mapsto> \<lparr>entry_value = service_shop, entry_expire = 1000\<rparr>]\<rparr>)) =
       [CacheGet (JNum 7), Next]
   \<and> res_locals
        (middleware cfg_default (\<lambda>c k. Rejected) 10 20 req_account7
          (st_empty\<lparr>serviceCache :=
              [JNum 7 \<mapsto> \<lparr>entry_value = service_shop, entry_expire = 1000\<rparr>]\<rparr>)) ''service'' =
       Some (JObj service_shop)"
  using cache_hit_serves_cached_value
    [of req_account7
        "st_empty\<lparr>serviceCache :=
            [JNum 7 \<mapsto> \<lparr>entry_value = service_shop, entry_expire = 1000\<rparr>]\<rparr>"
        "\<lparr>entry_value = service_shop, entry_expire = 1000\<rparr>" 10
        cfg_default "\<lambda>c k. Rejected" 20]
  by (simp add: gatewayAccountId_of_account7) (simp add: req_account7_def)

subsection \<open>Cache miss, fetch succeeds\<close>

text \<open>
  C3. A request that passes the check and misses the cache, with \<open>findServiceBy\<close>
  resolving to \<open>v\<close>: the middleware stores \<open>v\<close> under the gateway account identifier with
  the configured TTL, sets \<open>res.locals.service\<close> to \<open>v\<close> and calls the next stage. Every
  later request for the same identifier that arrives before the TTL has elapsed, also
  after other requests served in between within that time, is a cache hit: it gets \<open>v\<close>
  with no downstream call.
\<close>

theorem fetch_success_fills_cache:
  assumes auth: "truthy (chargeId req) \<or> truthy (chargeData req)"
    and miss: "cache_get (serviceCache st) now (gatewayAccountId_of req) = JNull"
    and fetch: "fsb (get_prop (JObj (req_headers req)) (CORRELATION_HEADER cfg))
                  (gatewayAccountId_of req) = Resolved v"
  shows "new_events st (middleware cfg fsb now settled req st) =
           [CacheGet (gatewayAccountId_of req),
            FindServiceBy (get_prop (JObj (req_headers req)) (CORRELATION_HEADER cfg))
              (gatewayAccountId_of req),
            CachePut (gatewayAccountId_of req) v (SERVICE_CACHE_MAX_AGE cfg),
            Next]
       \<and> serviceCache (middleware cfg fsb now settled req st) =
           (serviceCache st)(gatewayAccountId_of req \<mapsto>
              \<lparr>entry_value = v, entry_expire = settled + SERVICE_CACHE_MAX_AGE cfg\<rparr>)
       \<and> res_locals (middleware cfg fsb now settled req st) =
           (res_locals st)(''service'' \<mapsto> JObj v)
       \<and> (\<forall>rs req2 fsb2 now2 settled2.
             list_all (\<lambda>a. arrival_time a < settled + SERVICE_CACHE_MAX_AGE cfg) rs
             \<and> (truthy (chargeId req2) \<or> truthy (chargeData req2))
             \<and> gatewayAccountId_of req2 = gatewayAccountId_of req
             \<and> now2 < settled + SERVICE_CACHE_MAX_AGE cfg
             \<longrightarrow>
               new_events (serve cfg rs (middleware cfg fsb now settled req st))
                 (middleware cfg fsb2 now2 settled2 req2
                   (serve cfg rs (middleware cfg fsb now settled req st))) =
                 [CacheGet (gatewayAccountId_of req), Next]
             \<and> res_locals
                 (middleware cfg fsb2 now2 settled2 req2
                   (serve cfg rs (middleware cfg fsb now settled req st))) ''service'' =
                 Some (JObj v))"
proof -
  let ?k = "gatewayAccountId_of req"
  let ?e = "\<lparr>entry_value = v, entry_expire = settled + SERVICE_CACHE_MAX_AGE cfg\<rparr>"
  let ?st' = "middleware cfg fsb now settled req st"
  note run = mw_resolved [where fsb = fsb and cfg = cfg and settled = settled, OF auth miss fetch]
  have ev: "new_events st ?st' =
      [CacheGet ?k, FindServiceBy (get_prop (JObj (req_headers req)) (CORRELATION_HEADER cfg)) ?k,
       CachePut ?k v (SERVICE_CACHE_MAX_AGE cfg), Next]"
    by (simp add: run new_events_def)
  have cache: "serviceCache ?st' = (serviceCache st)(?k \<mapsto> ?e)"
    by (simp add: run cache_put_def)
  have locals: "res_locals ?st' = (res_locals st)(''service'' \<mapsto> JObj v)"
    by (simp add: run)
  have later:
    "new_events (serve cfg rs ?st') (middleware cfg fsb2 now2 settled2 req2 (serve cfg rs ?st')) =
       [CacheGet ?k, Next]
     \<and> res_locals (middleware cfg fsb2 now2 settled2 req2 (serve cfg rs ?st')) ''service'' =
       Some (JObj v)"
    if rs: "list_all (\<lambda>a. arrival_time a < settled + SERVICE_CACHE_MAX_AGE cfg) rs"
      and auth2: "truthy (chargeId req2) \<or> truthy (chargeData req2)"
      and same: "gatewayAccountId_of req2 = ?k"
      and window: "now2 < settled + SERVICE_CACHE_MAX_AGE cfg"
    for rs req2 fsb2 now2 settled2
  proof -
    have "serviceCache ?st' ?k = Some ?e"
      by (simp add: cache)
    moreover have "list_all (\<lambda>a. arrival_time a < entry_expire ?e) rs"
      using rs by simp
    ultimately have kept: "serviceCache (serve cfg rs ?st') ?k = Some ?e"
      by (rule serve_keeps_live_entry)
    have "cache_get (serviceCache (serve cfg rs ?st')) now2 (gatewayAccountId_of req2) = JObj v"
      using kept window by (simp add: same cache_get_def)
    from mw_hit [OF auth2 this] show ?thesis
      by (simp add: new_events_def same)
  qed
  from ev cache locals later show ?thesis
    by blast
qed


theorem fetch_success_fills_cache_witness:
  "(truthy (chargeId req_account7) \<or> truthy (chargeData req_account7))
   \<and> cache_get (serviceCache st_empty) 0 (gatewayAccountId_of req_account7) = JNull
   \<and> list_all (\<lambda>a. arrival_time a < 5 + SERVICE_CACHE_MAX_AGE cfg_default)
        [(\<lambda>c k. Rejected, 50, 60, req_anonymous)]
   \<and> (100::nat) < 5 + SERVICE_CACHE_MAX_AGE cfg_default
   \<and> new_events st_empty
        (middleware cfg_default (\<lambda>c k. Resolved service_shop) 0 5 req_account7 st_empty) =
       [CacheGet (JNum 7), FindServiceBy (JStr ''abc'') (JNum 7),
        CachePut (JNum 7) service_shop 900000, Next]
   \<and> new_events
        (serve cfg_default [(\<lambda>c k. Rejected, 50, 60, req_anonymous)]
          (middleware cfg_default (\<lambda>c k. Resolved service_shop) 0 5 req_account7 st_empty))
        (middleware cfg_default (\<lambda>c k. Rejected) 100 110 req_account7
          (serve cfg_default [(\<lambda>c k. Rejected, 50, 60, req_anonymous)]
            (middleware cfg_default (\<lambda>c k. Resolved service_shop) 0 5 req_account7 st_empty))) =
       [CacheGet (JNum 7), Next]"
proof -
  have auth: "truthy (chargeId req_account7) \<or> truthy (chargeData req_account7)"
    by (simp add: req_account7_def)
  have miss: "cache_get (serviceCache st_empty) 0 (gatewayAccountId_of req_account7) = JNull"
    by (simp add: cache_get_def st_empty_def)
  have fetch: "(\<lambda>c k. Resolved service_shop)
      (get_prop (JObj (req_headers req_account7)) (CORRELATION_HEADER cfg_default))
      (gatewayAccountId_of req_account7) = Resolved service_shop"
    by simp
  have rs: "list_all (\<lambda>a. arrival_time a < 5 + SERVICE_CACHE_MAX_AGE cfg_default)
      [(\<lambda>c k. Rejected, 50, 60, req_anonymous)]"
    by (simp add: arrival_time_def cfg_default_def)
  have window: "(100::nat) < 5 + SERVICE_CACHE_MAX_AGE cfg_default"
    by (simp add: cfg_default_def)
  note t = fetch_success_fills_cache
    [where fsb = "\<lambda>c k. Resolved service_shop" and cfg = cfg_default and settled = 5,
     OF auth miss fetch]
  from t have first:
    "new_events st_empty
       (middleware cfg_default (\<lambda>c k. Resolved service_shop) 0 5 req_account7 st_empty) =
     [CacheGet (JNum 7), FindServiceBy (JStr ''abc'') (JNum 7),
      CachePut (JNum 7) service_shop 900000, Next]"
    by (simp add: gatewayAccountId_of_account7) (simp add: req_account7_def cfg_default_def)
  from t have
    "\<forall>rs req2 fsb2 now2 settled2.
       list_all (\<lambda>a. arrival_time a < 5 + SERVICE_CACHE_MAX_AGE cfg_default) rs
       \<and> (truthy (chargeId req2) \<or> truthy (chargeData req2))
       \<and> gatewayAccountId_of req2 = gatewayAccountId_of req_account7
       \<and> now2 < 5 + SERVICE_CACHE_MAX_AGE cfg_default
       \<longrightarrow>
         new_events
           (serve cfg_default rs
             (middleware cfg_default (\<lambda>c k. Resolved service_shop) 0 5 req_account7 st_empty))
           (middleware cfg_default fsb2 now2 settled2 req2
             (serve cfg_default rs
               (middleware cfg_default (\<lambda>c k. Resolved service_shop) 0 5 req_account7 st_empty))) =
           [CacheGet (gatewayAccountId_of req_account7), Next]
       \<and> res_locals
           (middleware cfg_default fsb2 now2 settled2 req2
             (serve cfg_default rs
               (middleware cfg_default (\<lambda>c k. Resolved service_shop) 0 5 req_account7 st_empty)))
           ''service'' = Some (JObj service_shop)"
    by blast
  from this [rule_format, of "[(\<lambda>c k. Rejected, 50, 60, req_anonymous)]" req_account7
      100 "\<lambda>c k. Rejected" 110] rs auth window
  have second:
    "new_events
        (serve cfg_default [(\<lambda>c k. Rejected, 50, 60, req_anonymous)]
          (middleware cfg_default (\<lambda>c k. Resolved service_shop) 0 5 req_account7 st_empty))
        (middleware cfg_default (\<lambda>c k. Rejected) 100 110 req_account7
          (serve cfg_default [(\<lambda>c k. Rejected, 50, 60, req_anonymous)]
            (middleware cfg_default (\<lambda>c k. Resolved service_shop) 0 5 req_account7 st_empty))) =
       [CacheGet (JNum 7), Next]"
    by (simp add: gatewayAccountId_of_account7)
  from auth miss rs window first second show ?thesis
    by blast
qed

subsection \<open>Cache miss, fetch fails\<close>

text \<open>
  When \<open>req.chargeData.gateway_account\<close> can be read, the \<open>.catch\<close> callback logs and
  calls the next stage, and leaves the response locals and the cache as they were.
\<close>

lemma fetch_failure_continues_with_gateway_account:
  assumes auth: "truthy (chargeId req) \<or> truthy (chargeData req)"
    and miss: "cache_get (serviceCache st) now (gatewayAccountId_of req) = JNull"
    and fetch: "fsb (get_prop (JObj (req_headers req)) (CORRELATION_HEADER cfg))
                  (gatewayAccountId_of req) = Rejected"
    and cd: "\<not> nullish (chargeData req)"
    and ga: "\<not> nullish (get_prop (chargeData req) ''gateway_account'')"
  shows "new_events st (middleware cfg fsb now settled req st) =
           [CacheGet (gatewayAccountId_of req),
            FindServiceBy (get_prop (JObj (req_headers req)) (CORRELATION_HEADER cfg))
              (gatewayAccountId_of req),
            LoggerError
              (get_prop (get_prop (chargeData req) ''gateway_account'') ''serviceName''),
            Next]
       \<and> res_locals (middleware cfg fsb now settled req st) = res_locals st
       \<and> serviceCache (middleware cfg fsb now settled req st) = serviceCache st"
  using cd ga
  by (simp add: mw_rejected [where fsb = fsb and cfg = cfg, OF auth miss fetch]
        catch_handler_def member_def emit_def new_events_def)

text \<open>
  C4. After a failed fetch the next stage should still be called, with no service in the
  request context. For a request that passes the check with a charge identifier only,
  the \<open>.catch\<close> callback throws on \<open>req.chargeData.gateway_account\<close> before it reaches
  \<open>next()\<close>: the run ends in an unhandled rejection and the next stage is never called.
\<close>

theorem fetch_failure_without_chargeData_stops:
  "(truthy (chargeId req_chargeId_only) \<or> truthy (chargeData req_chargeId_only))
   \<and> cache_get (serviceCache st_empty) 0 (gatewayAccountId_of req_chargeId_only) = JNull
   \<and> events (middleware cfg_default (\<lambda>c k. Rejected) 0 5 req_chargeId_only st_empty) =
       [CacheGet JUndefined, FindServiceBy JUndefined JUndefined, UnhandledRejection TypeError]
   \<and> Next \<notin> set (events (middleware cfg_default (\<lambda>c k. Rejected) 0 5 req_chargeId_only st_empty))"
proof -
  have auth: "truthy (chargeId req_chargeId_only) \<or> truthy (chargeData req_chargeId_only)"
    by (simp add: req_chargeId_only_def)
  have miss: "cache_get (serviceCache st_empty) 0 (gatewayAccountId_of req_chargeId_only) = JNull"
    by (simp add: cache_get_def st_empty_def)
  have fetch: "(\<lambda>c k. Rejected)
      (get_prop (JObj (req_headers req_chargeId_only)) (CORRELATION_HEADER cfg_default))
      (gatewayAccountId_of req_chargeId_only) = Rejected"
    by simp
  have "events (middleware cfg_default (\<lambda>c k. Rejected) 0 5 req_chargeId_only st_empty) =
      [CacheGet JUndefined, FindServiceBy JUndefined JUndefined, UnhandledRejection TypeError]"
    by (simp add: mw_rejected [where fsb = "\<lambda>c k. Rejected" and cfg = cfg_default, OF auth miss fetch]
          gatewayAccountId_of_chargeId_only catch_handler_def member_def emit_def)
       (simp add: req_chargeId_only_def st_empty_def)
  with auth miss show ?thesis
    by simp
qed


subsection \<open>Requests without an account identifier\<close>

lemma gatewayAccountId_of_missing:
  "get_prop (get_prop (chargeData req) ''gateway_account'') ''gateway_account_id'' = JUndefined
   \<Longrightarrow> gatewayAccountId_of req = JUndefined"
  by (simp add: gatewayAccountId_of_def)

text \<open>
  C10. A request that passes the check but has no
  \<open>chargeData.gateway_account.gateway_account_id\<close> (one with a charge identifier only, for
  instance) goes on with \<open>undefined\<close> as its account identifier: the cache lookup, the
  \<open>findServiceBy\<close> call and the cache insertion all use that key, so a second such
  request within the TTL is served the entry the first one stored, whatever account
  either concerns.
\<close>

theorem undefined_account_id_shares_entry:
  assumes auth1: "truthy (chargeId req1) \<or> truthy (chargeData req1)"
    and lacks1:
      "get_prop (get_prop (chargeData req1) ''gateway_account'') ''gateway_account_id'' =
         JUndefined"
    and auth2: "truthy (chargeId req2) \<or> truthy (chargeData req2)"
    and lacks2:
      "get_prop (get_prop (chargeData req2) ''gateway_account'') ''gateway_account_id'' =
         JUndefined"
    and miss: "cache_get (serviceCache st) now1 JUndefined = JNull"
    and fetch: "fsb1 (get_prop (JObj (req_headers req1)) (CORRELATION_HEADER cfg)) JUndefined =
                  Resolved v"
    and window: "now2 < settled1 + SERVICE_CACHE_MAX_AGE cfg"
  shows "new_events st (middleware cfg fsb1 now1 settled1 req1 st) =
           [CacheGet JUndefined,
            FindServiceBy (get_prop (JObj (req_headers req1)) (CORRELATION_HEADER cfg)) JUndefined,
            CachePut JUndefined v (SERVICE_CACHE_MAX_AGE cfg),
            Next]
       \<and> serviceCache (middleware cfg fsb1 now1 settled1 req1 st) JUndefined =
           Some \<lparr>entry_value = v, entry_expire = settled1 + SERVICE_CACHE_MAX_AGE cfg\<rparr>
       \<and> new_events (middleware cfg fsb1 now1 settled1 req1 st)
           (middleware cfg fsb2 now2 settled2 req2 (middleware cfg fsb1 now1 settled1 req1 st)) =
           [CacheGet JUndefined, Next]
       \<and> res_locals
           (middleware cfg fsb2 now2 settled2 req2 (middleware cfg fsb1 now1 settled1 req1 st))
           ''service'' = Some (JObj v)"
proof -
  let ?st1 = "middleware cfg fsb1 now1 settled1 req1 st"
  have k1: "gatewayAccountId_of req1 = JUndefined"
    using lacks1 by (rule gatewayAccountId_of_missing)
  have k2: "gatewayAccountId_of req2 = JUndefined"
    using lacks2 by (rule gatewayAccountId_of_missing)
  have miss1: "cache_get (serviceCache st) now1 (gatewayAccountId_of req1) = JNull"
    using miss by (simp add: k1)
  have fetch1: "fsb1 (get_prop (JObj (req_headers req1)) (CORRELATION_HEADER cfg))
      (gatewayAccountId_of req1) = Resolved v"
    using fetch by (simp add: k1)
  note run1 = mw_resolved [where fsb = fsb1 and cfg = cfg and settled = settled1,
      OF auth1 miss1 fetch1]
  have ev1: "new_events st ?st1 =
      [CacheGet JUndefined,
       FindServiceBy (get_prop (JObj (req_headers req1)) (CORRELATION_HEADER cfg)) JUndefined,
       CachePut JUndefined v (SERVICE_CACHE_MAX_AGE cfg), Next]"
    by (simp add: run1 new_events_def k1)
  have entry: "serviceCache ?st1 JUndefined =
      Some \<lparr>entry_value = v, entry_expire = settled1 + SERVICE_CACHE_MAX_AGE cfg\<rparr>"
    by (simp add: run1 cache_put_def k1)
  have "cache_get (serviceCache ?st1) now2 (gatewayAccountId_of req2) = JObj v"
    using entry window by (simp add: k2 cache_get_def)
  note run2 = mw_hit [where fsb = fsb2 and cfg = cfg and settled = settled2, OF auth2 this]
  have ev2: "new_events ?st1 (middleware cfg fsb2 now2 settled2 req2 ?st1) =
      [CacheGet JUndefined, Next]"
    by (simp add: run2 new_events_def k2)
  have svc: "res_locals (middleware cfg fsb2 now2 settled2 req2 ?st1) ''service'' = Some (JObj v)"
    by (simp add: run2)
  from ev1 entry ev2 svc show ?thesis
    by blast
qed

theorem undefined_account_id_shares_entry_witness:
  "(truthy (chargeId req_chargeId_only) \<or> truthy (chargeData req_chargeId_only))
   \<and> (truthy (chargeId req_other_chargeId_only) \<or> truthy (chargeData req_other_chargeId_only))
   \<and> get_prop (get_prop (chargeData req_chargeId_only) ''gateway_account'')
        ''gateway_account_id'' = JUndefined
   \<and> get_prop (get_prop (chargeData req_other_chargeId_only) ''gateway_account'')
        ''gateway_account_id'' = JUndefined
   \<and> (100::nat) < 5 + SERVICE_CACHE_MAX_AGE cfg_default
   \<and> new_events st_empty
        (middleware cfg_default (\<lambda>c k. Resolved service_shop) 0 5 req_chargeId_only st_empty) =
       [CacheGet JUndefined, FindServiceBy JUndefined JUndefined,
        CachePut JUndefined service_shop 900000, Next]
   \<and> res_locals
        (middleware cfg_default (\<lambda>c k. Rejected) 100 110 req_other_chargeId_only
          (middleware cfg_default (\<lambda>c k. Resolved service_shop) 0 5 req_chargeId_only st_empty))
        ''service'' = Some (JObj service_shop)"
proof -
  have auth1: "truthy (chargeId req_chargeId_only) \<or> truthy (chargeData req_chargeId_only)"
    by (simp add: req_chargeId_only_def)
  have auth2:
    "truthy (chargeId req_other_chargeId_only) \<or> truthy (chargeData req_other_chargeId_only)"
    by (simp add: req_other_chargeId_only_def)
  have lacks1: "get_prop (get_prop (chargeData req_chargeId_only) ''gateway_account'')
      ''gateway_account_id'' = JUndefined"
    by (simp add: req_chargeId_only_def)
  have lacks2: "get_prop (get_prop (chargeData req_other_chargeId_only) ''gateway_account'')
      ''gateway_account_id'' = JUndefined"
    by (simp add: req_other_chargeId_only_def)
  have miss: "cache_get (serviceCache st_empty) 0 JUndefined = JNull"
    by (simp add: cache_get_def st_empty_def)
  have fetch: "(\<lambda>c k. Resolved service_shop)
      (get_prop (JObj (req_headers req_chargeId_only)) (CORRELATION_HEADER cfg_default))
      JUndefined = Resolved service_shop"
    by simp
  have window: "(100::nat) < 5 + SERVICE_CACHE_MAX_AGE cfg_default"
    by (simp add: cfg_default_def)
  note t = undefined_account_id_shares_entry
    [where ?fsb1.0 = "\<lambda>c k. Resolved service_shop" and cfg = cfg_default and ?settled1.0 = 5
       and ?fsb2.0 = "\<lambda>c k. Rejected" and ?settled2.0 = 110,
     OF auth1 lacks1 auth2 lacks2 miss fetch window]
  from t have first:
    "new_events st_empty
        (middleware cfg_default (\<lambda>c k. Resolved service_shop) 0 5 req_chargeId_only st_empty) =
       [CacheGet JUndefined, FindServiceBy JUndefined JUndefined,
        CachePut JUndefined service_shop 900000, Next]"
    by (simp add: req_chargeId_only_def cfg_default_def)
  from t have second:
    "res_locals
        (middleware cfg_default (\<lambda>c k. Rejected) 100 110 req_other_chargeId_only
          (middleware cfg_default (\<lambda>c k. Resolved service_shop) 0 5 req_chargeId_only st_empty))
        ''service'' = Some (JObj service_shop)"
    by simp
  from auth1 auth2 lacks1 lacks2 window first second show ?thesis
    by blast
qed

section \<open>Properties of the outbound request client\<close>

subsection \<open>Computed headers\<close>

lemma urlParse_svc_internal:
  "urlParse ''https://svc.internal:8443/x'' =
     \<lparr>protocol = Some ''https:'', hostname = Some ''svc.internal'', port = Some ''8443'',
      path = ''/x''\<rparr>"
  by code_simp


lemma headers_before_trace_content_type:
  "CORRELATION_HEADER_NAME env \<noteq> ''Content-Type'' \<Longrightarrow>
   headers_before_trace env a url ''Content-Type'' = Some ''application/json''"
  by (simp add: headers_before_trace_def Let_def)

lemma headers_before_trace_correlation:
  "CORRELATION_HEADER_NAME env \<noteq> ''host'' \<Longrightarrow>
   headers_before_trace env a url (CORRELATION_HEADER_NAME env) =
     Some (or_empty (correlationId a))"
  by (simp add: headers_before_trace_def Let_def)

lemma headers_before_trace_host:
  "url \<noteq> [] \<Longrightarrow>
   headers_before_trace env a url ''host'' =
     Some (concat_hostname (hostname (urlParse url))
            (case port (urlParse url) of
               None \<Rightarrow> []
             | Some n \<Rightarrow> if n \<noteq> [] then '':'' @ n else []))"
  by (simp add: headers_before_trace_def Let_def)

lemma computed_headers_other_key:
  "k \<noteq> ''X-Amzn-Trace-Id'' \<Longrightarrow>
   computed_headers env a sd url k = headers_before_trace env a url k"
  by (simp add: computed_headers_def Let_def split: option.split)

lemma or_empty_eq: "or_empty v = (case v of None \<Rightarrow> [] | Some c \<Rightarrow> c)"
  by (simp add: or_empty_def split: option.split)

lemma getHeaders_no_caller_headers:
  "headers a = None \<Longrightarrow> getHeaders env a sd url = computed_headers env a sd url"
  by (simp add: getHeaders_def lodash_merge_def)

lemma private_request_headers:
  "opt_headers (snd (private_request env m url a sub)) =
     getHeaders env a \<lparr>clsSegment = cls_segment env, subSegment = sub\<rparr> url"
  by (simp add: private_request_def Let_def)

text \<open>
  C5. For every outbound request the computed headers hold \<open>Content-Type\<close> with
  \<open>application/json\<close> and the correlation header with the caller's \<open>correlationId\<close>, or
  with the empty string when there is none; when the URL has a hostname, \<open>host\<close> is that
  hostname, followed by a colon and the port when the URL has a port. For
  \<open>https://svc.internal:8443/x\<close> and no caller headers the headers hold
  \<open>host: svc.internal:8443\<close> and \<open>Content-Type: application/json\<close>. The correlation
  header's name is taken to differ from the three fixed header names.
\<close>

theorem computed_headers_content_type_correlation_host:
  assumes corr: "CORRELATION_HEADER_NAME env \<notin> {''Content-Type'', ''host'', ''X-Amzn-Trace-Id''}"
  shows "computed_headers env a sd url ''Content-Type'' = Some ''application/json''
       \<and> computed_headers env a sd url (CORRELATION_HEADER_NAME env) =
           Some (case correlationId a of None \<Rightarrow> [] | Some c \<Rightarrow> c)
       \<and> (\<forall>h p. url \<noteq> [] \<and> hostname (urlParse url) = Some h
               \<and> port (urlParse url) = Some p \<and> p \<noteq> []
             \<longrightarrow> computed_headers env a sd url ''host'' = Some (h @ '':'' @ p))
       \<and> (\<forall>h. url \<noteq> [] \<and> hostname (urlParse url) = Some h \<and> port (urlParse url) = None
             \<longrightarrow> computed_headers env a sd url ''host'' = Some h)
       \<and> (headers a = None
             \<longrightarrow> getHeaders env a sd ''https://svc.internal:8443/x'' ''host'' =
                   Some ''svc.internal:8443''
               \<and> getHeaders env a sd ''https://svc.internal:8443/x'' ''Content-Type'' =
                   Some ''application/json'')"
proof -
  from corr have c1: "CORRELATION_HEADER_NAME env \<noteq> ''Content-Type''"
    and c2: "CORRELATION_HEADER_NAME env \<noteq> ''host''"
    and c3: "CORRELATION_HEADER_NAME env \<noteq> ''X-Amzn-Trace-Id''"
    by simp_all
  have ct: "computed_headers env a sd u ''Content-Type'' = Some ''application/json''" for u
    using c1 by (simp add: computed_headers_other_key headers_before_trace_content_type)
  have co: "computed_headers env a sd url (CORRELATION_HEADER_NAME env) =
      Some (case correlationId a of None \<Rightarrow> [] | Some c \<Rightarrow> c)"
    using c2 c3
    by (simp add: computed_headers_other_key headers_before_trace_correlation or_empty_eq)
  have host: "computed_headers env a sd u ''host'' =
      Some (concat_hostname (hostname (urlParse u))
             (case port (urlParse u) of
                None \<Rightarrow> []
              | Some n \<Rightarrow> if n \<noteq> [] then '':'' @ n else []))"
    if "u \<noteq> []" for u
    using that by (simp add: computed_headers_other_key headers_before_trace_host)
  have with_port: "computed_headers env a sd url ''host'' = Some (h @ '':'' @ p)"
    if "url \<noteq> []" "hostname (urlParse url) = Some h" "port (urlParse url) = Some p" "p \<noteq> []"
    for h p
    using that by (simp add: host concat_hostname_def)
  have no_port: "computed_headers env a sd url ''host'' = Some h"
    if "url \<noteq> []" "hostname (urlParse url) = Some h" "port (urlParse url) = None" for h
    using that by (simp add: host concat_hostname_def)
  have example: "getHeaders env a sd ''https://svc.internal:8443/x'' ''host'' =
        Some ''svc.internal:8443''
      \<and> getHeaders env a sd ''https://svc.internal:8443/x'' ''Content-Type'' =
        Some ''application/json''"
    if "headers a = None"
    using that
    by (simp add: getHeaders_no_caller_headers ct host urlParse_svc_internal concat_hostname_def)
  from ct [of url] co with_port no_port example show ?thesis
    by blast
qed

theorem computed_headers_content_type_correlation_host_witness:
  "CORRELATION_HEADER_NAME env_plain \<notin> {''Content-Type'', ''host'', ''X-Amzn-Trace-Id''}
   \<and> headers args_plain = None
   \<and> getHeaders env_plain args_plain \<lparr>clsSegment = None, subSegment = None\<rparr>
        ''https://svc.internal:8443/x'' ''host'' = Some ''svc.internal:8443''
   \<and> getHeaders env_plain args_plain \<lparr>clsSegment = None, subSegment = None\<rparr>
        ''https://svc.internal:8443/x'' ''Content-Type'' = Some ''application/json''
   \<and> computed_headers env_plain args_plain \<lparr>clsSegment = None, subSegment = None\<rparr>
        ''https://svc.internal:8443/x'' ''x-request-id'' = Some ''abc''"
proof -
  have corr: "CORRELATION_HEADER_NAME env_plain \<notin> {''Content-Type'', ''host'', ''X-Amzn-Trace-Id''}"
    by (simp add: env_plain_def)
  have none: "headers args_plain = None"
    by (simp add: args_plain_def)
  from computed_headers_content_type_correlation_host
    [OF corr, of args_plain "\<lparr>clsSegment = None, subSegment = None\<rparr>"
       "''https://svc.internal:8443/x''"] none
  have "getHeaders env_plain args_plain \<lparr>clsSegment = None, subSegment = None\<rparr>
        ''https://svc.internal:8443/x'' ''host'' = Some ''svc.internal:8443''
   \<and> getHeaders env_plain args_plain \<lparr>clsSegment = None, subSegment = None\<rparr>
        ''https://svc.internal:8443/x'' ''Content-Type'' = Some ''application/json''
   \<and> computed_headers env_plain args_plain \<lparr>clsSegment = None, subSegment = None\<rparr>
        ''https://svc.internal:8443/x'' ''x-request-id'' = Some ''abc''"
    by (simp add: env_plain_def args_plain_def)
  with corr none show ?thesis
    by blast
qed


subsection \<open>The trace header\<close>

lemma computed_headers_trace_some:
  "clsSegment sd = Some cls \<Longrightarrow>
   computed_headers env a sd url ''X-Amzn-Trace-Id'' =
     Some (''Root='' @ trace_id cls @ '';Parent='' @
           segment_id (case subSegment sd of
                         Some s \<Rightarrow> s
                       | None \<Rightarrow> new_Segment env ''_request'' (trace_id cls)) @
           '';Sampled=1'')"
  by (simp add: computed_headers_def Let_def)

lemma computed_headers_trace_none:
  "clsSegment sd = None \<Longrightarrow>
   computed_headers env a sd url = headers_before_trace env a url"
  by (simp add: computed_headers_def Let_def)

lemma headers_before_trace_no_trace_key:
  "CORRELATION_HEADER_NAME env \<noteq> ''X-Amzn-Trace-Id'' \<Longrightarrow>
   headers_before_trace env a url ''X-Amzn-Trace-Id'' = None"
  by (simp add: headers_before_trace_def Let_def)

lemma getHeaders_key_not_in_caller:
  "\<forall>hs. headers a = Some hs \<longrightarrow> hs k = None \<Longrightarrow>
   getHeaders env a sd url k = computed_headers env a sd url k"
  by (cases "headers a") (simp_all add: getHeaders_def lodash_merge_def map_add_def)

text \<open>
  C6. While the namespace holds a segment, the computed headers of a request hold
  \<open>X-Amzn-Trace-Id\<close> with \<open>Root=\<close>, the segment's trace id, \<open>;Parent=\<close>, the id of the
  caller's sub-segment or else of a newly created segment, and \<open>;Sampled=1\<close>; with no
  segment there is no such header. The same holds for the headers sent, unless the
  caller's own headers carry that key.
\<close>

theorem trace_header_format:
  "(\<forall>cls. cls_segment env = Some cls \<longrightarrow>
      computed_headers env a \<lparr>clsSegment = cls_segment env, subSegment = sub\<rparr> url
        ''X-Amzn-Trace-Id'' =
        Some (''Root='' @ trace_id cls @ '';Parent='' @
              segment_id (case sub of
                            Some s \<Rightarrow> s
                          | None \<Rightarrow> new_Segment env ''_request'' (trace_id cls)) @
              '';Sampled=1'')
      \<and> ((\<forall>hs. headers a = Some hs \<longrightarrow> hs ''X-Amzn-Trace-Id'' = None) \<longrightarrow>
           opt_headers (snd (private_request env m url a sub)) ''X-Amzn-Trace-Id'' =
             Some (''Root='' @ trace_id cls @ '';Parent='' @
                   segment_id (case sub of
                                 Some s \<Rightarrow> s
                               | None \<Rightarrow> new_Segment env ''_request'' (trace_id cls)) @
                   '';Sampled=1'')))
   \<and> (cls_segment env = None \<and> CORRELATION_HEADER_NAME env \<noteq> ''X-Amzn-Trace-Id'' \<longrightarrow>
        computed_headers env a \<lparr>clsSegment = cls_segment env, subSegment = sub\<rparr> url
          ''X-Amzn-Trace-Id'' = None
        \<and> ((\<forall>hs. headers a = Some hs \<longrightarrow> hs ''X-Amzn-Trace-Id'' = None) \<longrightarrow>
             opt_headers (snd (private_request env m url a sub)) ''X-Amzn-Trace-Id'' = None))"
proof -
  let ?sd = "\<lparr>clsSegment = cls_segment env, subSegment = sub\<rparr>"
  have traced: "computed_headers env a ?sd url ''X-Amzn-Trace-Id'' =
        Some (''Root='' @ trace_id cls @ '';Parent='' @
              segment_id (case sub of
                            Some s \<Rightarrow> s
                          | None \<Rightarrow> new_Segment env ''_request'' (trace_id cls)) @
              '';Sampled=1'')"
    if "cls_segment env = Some cls" for cls
    using that computed_headers_trace_some [of ?sd cls env a url] by simp
  have untraced: "computed_headers env a ?sd url ''X-Amzn-Trace-Id'' = None"
    if "cls_segment env = None" "CORRELATION_HEADER_NAME env \<noteq> ''X-Amzn-Trace-Id''"
    using that by (simp add: computed_headers_trace_none headers_before_trace_no_trace_key)
  have final: "opt_headers (snd (private_request env m url a sub)) ''X-Amzn-Trace-Id'' =
      computed_headers env a ?sd url ''X-Amzn-Trace-Id''"
    if "\<forall>hs. headers a = Some hs \<longrightarrow> hs ''X-Amzn-Trace-Id'' = None"
    using that by (simp add: private_request_headers getHeaders_key_not_in_caller)
  from traced untraced final show ?thesis
    by simp
qed

theorem trace_header_format_witness:
  "cls_segment env_traced =
     Some \<lparr>trace_id = ''1-581cf771-a006649127e371903a2de979'', segment_id = ''70de5b6f19ff9a0a''\<rparr>
   \<and> headers args_plain = None
   \<and> opt_headers (snd (private_request env_traced ''GET'' ''https://svc.internal:8443/x''
        args_plain None)) ''X-Amzn-Trace-Id'' =
       Some ''Root=1-581cf771-a006649127e371903a2de979;Parent=53995c3f42cd8ad8;Sampled=1''
   \<and> cls_segment env_plain = None
   \<and> CORRELATION_HEADER_NAME env_plain \<noteq> ''X-Amzn-Trace-Id''
   \<and> opt_headers (snd (private_request env_plain ''GET'' ''https://svc.internal:8443/x''
        args_plain None)) ''X-Amzn-Trace-Id'' = None"
proof -
  have seg: "cls_segment env_traced =
     Some \<lparr>trace_id = ''1-581cf771-a006649127e371903a2de979'', segment_id = ''70de5b6f19ff9a0a''\<rparr>"
    by (simp add: env_traced_def env_plain_def)
  have silent: "\<forall>hs. headers args_plain = Some hs \<longrightarrow> hs ''X-Amzn-Trace-Id'' = None"
    by (simp add: args_plain_def)
  have noseg: "cls_segment env_plain = None"
    and corr: "CORRELATION_HEADER_NAME env_plain \<noteq> ''X-Amzn-Trace-Id''"
    by (simp_all add: env_plain_def)
  from trace_header_format
    [of env_traced args_plain None "''https://svc.internal:8443/x''" "''GET''"] seg silent
  have traced: "opt_headers (snd (private_request env_traced ''GET'' ''https://svc.internal:8443/x''
        args_plain None)) ''X-Amzn-Trace-Id'' =
       Some ''Root=1-581cf771-a006649127e371903a2de979;Parent=53995c3f42cd8ad8;Sampled=1''"
    by (simp add: env_traced_def env_plain_def)
  from trace_header_format
    [of env_plain args_plain None "''https://svc.internal:8443/x''" "''GET''"] noseg corr silent
  have untraced: "opt_headers (snd (private_request env_plain ''GET'' ''https://svc.internal:8443/x''
        args_plain None)) ''X-Amzn-Trace-Id'' = None"
    by simp
  have none: "headers args_plain = None"
    by (simp add: args_plain_def)
  from seg none traced noseg corr untraced show ?thesis
    by blast
qed

subsection \<open>Caller headers\<close>

lemma getHeaders_caller_key:
  "headers a = Some hs \<Longrightarrow> hs k = Some v \<Longrightarrow> getHeaders env a sd url k = Some v"
  by (simp add: getHeaders_def lodash_merge_def)

text \<open>
  C7. The caller's headers are merged after the computed ones: every key the caller
  supplies has the caller's value in the result, whatever was computed for it, and every
  other key keeps its computed value.
\<close>

theorem caller_headers_win:
  assumes hs: "headers a = Some hs"
  shows "getHeaders env a sd url = computed_headers env a sd url ++ hs
       \<and> (\<forall>k v. hs k = Some v \<longrightarrow> getHeaders env a sd url k = Some v)
       \<and> (\<forall>k. hs k = None \<longrightarrow> getHeaders env a sd url k = computed_headers env a sd url k)
       \<and> (\<forall>k v. hs k = Some v \<longrightarrow>
            opt_headers (snd (private_request env m url a sub)) k = Some v)"
proof -
  have merged: "getHeaders env a sd url = computed_headers env a sd url ++ hs"
    using hs by (simp add: getHeaders_def lodash_merge_def)
  have wins: "getHeaders env a sd' url k = Some v" if "hs k = Some v" for k v sd'
    using hs that by (rule getHeaders_caller_key)
  have keeps: "getHeaders env a sd url k = computed_headers env a sd url k" if "hs k = None" for k
    using that by (simp add: merged map_add_def)
  have sent: "opt_headers (snd (private_request env m url a sub)) k = Some v"
    if "hs k = Some v" for k v
    using that by (simp add: private_request_headers wins)
  from merged wins keeps sent show ?thesis
    by blast
qed

theorem caller_headers_win_witness:
  "headers args_custom =
     Some [''Content-Type'' \<mapsto> ''text/plain'', ''x-api-key'' \<mapsto> ''k1'']
   \<and> computed_headers env_plain args_custom \<lparr>clsSegment = None, subSegment = None\<rparr>
        ''https://svc.internal:8443/x'' ''Content-Type'' = Some ''application/json''
   \<and> getHeaders env_plain args_custom \<lparr>clsSegment = None, subSegment = None\<rparr>
        ''https://svc.internal:8443/x'' ''Content-Type'' = Some ''text/plain''
   \<and> getHeaders env_plain args_custom \<lparr>clsSegment = None, subSegment = None\<rparr>
        ''https://svc.internal:8443/x'' ''x-request-id'' = Some ''abc''"
proof -
  let ?sd = "\<lparr>clsSegment = None, subSegment = None\<rparr>"
  let ?url = "''https://svc.internal:8443/x''"
  have hs: "headers args_custom =
     Some [''Content-Type'' \<mapsto> ''text/plain'', ''x-api-key'' \<mapsto> ''k1'']"
    by (simp add: args_custom_def)
  have ct: "computed_headers env_plain args_custom ?sd ?url ''Content-Type'' =
      Some ''application/json''"
    by (simp add: computed_headers_other_key headers_before_trace_content_type env_plain_def)
  have corr: "computed_headers env_plain args_custom ?sd ?url ''x-request-id'' = Some ''abc''"
    using headers_before_trace_correlation [of env_plain args_custom ?url]
    by (simp add: computed_headers_other_key env_plain_def args_custom_def args_plain_def
          or_empty_def)
  note t = caller_headers_win [OF hs, of env_plain ?sd ?url "''GET''" None]
  from t have over: "getHeaders env_plain args_custom ?sd ?url ''Content-Type'' = Some ''text/plain''"
    by simp
  from t corr have kept: "getHeaders env_plain args_custom ?sd ?url ''x-request-id'' = Some ''abc''"
    by simp
  from hs ct over kept show ?thesis
    by blast
qed


subsection \<open>Retrying\<close>

lemma retryOnEconnreset_iff:
  "retryOnEconnreset err \<longleftrightarrow> (\<exists>e. err = Some e \<and> code e = Some ''ECONNRESET'')"
  by (auto simp add: retryOnEconnreset_def RETRIABLE_ERRORS_def split: option.splits)

lemma retryOnEconnreset_response: "\<not> retryOnEconnreset (err_of (HttpResponse status b))"
  by (simp add: retryOnEconnreset_def)

lemma client_unfold:
  "client transport =
     (if retryOnEconnreset (err_of (transport 0)) then
        (if retryOnEconnreset (err_of (transport 1)) then
           \<lparr>attempts = 3, delays = [5000, 5000], final = transport 2\<rparr>
         else \<lparr>attempts = 2, delays = [5000], final = transport 1\<rparr>)
      else \<lparr>attempts = 1, delays = [], final = transport 0\<rparr>)"
proof -
  have two: "maxAttempts client_defaults - 1 = Suc (Suc 0)"
    by (simp add: client_defaults_def)
  show ?thesis
    unfolding client_def two
    by (simp add: client_defaults_def Let_def numeral_2_eq_2 numeral_3_eq_3)
qed

text \<open>
  C8. The retry strategy accepts an outcome exactly when it is an error whose code is
  \<open>ECONNRESET\<close>; there are at most 3 attempts, 5000 ms apart. Attempts that all fail with
  a connection reset make exactly 3 attempts and the last failure goes to the caller;
  any other error, and any HTTP response whatever its status, makes exactly 1 attempt.
\<close>

theorem retry_policy:
  "(retryStrategy client_defaults err \<longleftrightarrow> (\<exists>e. err = Some e \<and> code e = Some ''ECONNRESET''))
   \<and> maxAttempts client_defaults = 3
   \<and> retryDelay client_defaults = 5000
   \<and> attempts (client transport) =
       (if retryStrategy client_defaults (err_of (transport 0)) then
          (if retryStrategy client_defaults (err_of (transport 1)) then 3 else 2)
        else 1)
   \<and> delays (client transport) = replicate (attempts (client transport) - 1) 5000
   \<and> final (client transport) = transport (attempts (client transport) - 1)
   \<and> ((\<forall>i<3. \<exists>e. transport i = Failure e \<and> code e = Some ''ECONNRESET'') \<longrightarrow>
        attempts (client transport) = 3 \<and> delays (client transport) = [5000, 5000]
        \<and> final (client transport) = transport 2)
   \<and> ((\<forall>e. transport 0 = Failure e \<longrightarrow> code e \<noteq> Some ''ECONNRESET'') \<longrightarrow>
        attempts (client transport) = 1 \<and> delays (client transport) = []
        \<and> final (client transport) = transport 0)
   \<and> (\<forall>status b. transport 0 = HttpResponse status b \<longrightarrow>
        attempts (client transport) = 1 \<and> delays (client transport) = []
        \<and> final (client transport) = transport 0)"
proof -
  have strat: "retryStrategy client_defaults = retryOnEconnreset"
    by (simp add: client_defaults_def)
  have p1: "retryStrategy client_defaults err \<longleftrightarrow>
      (\<exists>e. err = Some e \<and> code e = Some ''ECONNRESET'')"
    by (simp add: strat retryOnEconnreset_iff)
  have p2: "maxAttempts client_defaults = 3" and p3: "retryDelay client_defaults = 5000"
    by (simp_all add: client_defaults_def)
  have p4: "attempts (client transport) =
       (if retryStrategy client_defaults (err_of (transport 0)) then
          (if retryStrategy client_defaults (err_of (transport 1)) then 3 else 2)
        else 1)"
    by (simp add: strat client_unfold)
  have p5: "delays (client transport) = replicate (attempts (client transport) - 1) 5000"
    by (simp add: client_unfold numeral_2_eq_2)
  have p6: "final (client transport) = transport (attempts (client transport) - 1)"
    by (simp add: client_unfold)
  have p7: "attempts (client transport) = 3 \<and> delays (client transport) = [5000, 5000]
        \<and> final (client transport) = transport 2"
    if all: "\<forall>i<3. \<exists>e. transport i = Failure e \<and> code e = Some ''ECONNRESET''"
  proof -
    from all have "\<exists>e. transport 0 = Failure e \<and> code e = Some ''ECONNRESET''"
      and "\<exists>e. transport 1 = Failure e \<and> code e = Some ''ECONNRESET''"
      by simp_all
    then have "retryOnEconnreset (err_of (transport 0))"
      and "retryOnEconnreset (err_of (transport 1))"
      by (auto simp add: retryOnEconnreset_iff)
    then show ?thesis
      by (simp add: client_unfold)
  qed
  have p8: "attempts (client transport) = 1 \<and> delays (client transport) = []
        \<and> final (client transport) = transport 0"
    if other: "\<forall>e. transport 0 = Failure e \<longrightarrow> code e \<noteq> Some ''ECONNRESET''"
  proof -
    have "\<not> retryOnEconnreset (err_of (transport 0))"
      using other by (cases "transport 0") (simp_all add: retryOnEconnreset_iff)
    then show ?thesis
      by (simp add: client_unfold)
  qed
  have p9: "attempts (client transport) = 1 \<and> delays (client transport) = []
        \<and> final (client transport) = transport 0"
    if "transport 0 = HttpResponse status b" for status b
    using that by (simp add: client_unfold retryOnEconnreset_def)
  from p1 p2 p3 p4 p5 p6 p7 p8 p9 show ?thesis
    by blast
qed

theorem retry_policy_witness:
  "econnreset = Failure \<lparr>code = Some ''ECONNRESET''\<rparr>
   \<and> attempts (client (\<lambda>i. econnreset)) = 3
   \<and> delays (client (\<lambda>i. econnreset)) = [5000, 5000]
   \<and> final (client (\<lambda>i. econnreset)) = econnreset
   \<and> attempts (client (\<lambda>i. HttpResponse 500 JNull)) = 1
   \<and> final (client (\<lambda>i. HttpResponse 500 JNull)) = HttpResponse 500 JNull
   \<and> etimedout = Failure \<lparr>code = Some ''ETIMEDOUT''\<rparr>
   \<and> attempts (client (\<lambda>i. etimedout)) = 1"
proof -
  have all: "\<forall>i<3. \<exists>e. (\<lambda>i. econnreset) i = Failure e \<and> code e = Some ''ECONNRESET''"
    by (simp add: econnreset_def)
  have other: "\<forall>e. (\<lambda>i. etimedout) (0::nat) = Failure e \<longrightarrow> code e \<noteq> Some ''ECONNRESET''"
    by (auto simp add: etimedout_def)
  from retry_policy [of _ "\<lambda>i. econnreset"] all
  have r: "attempts (client (\<lambda>i. econnreset)) = 3
      \<and> delays (client (\<lambda>i. econnreset)) = [5000, 5000]
      \<and> final (client (\<lambda>i. econnreset)) = econnreset"
    by blast
  from retry_policy [of _ "\<lambda>i. HttpResponse 500 JNull"]
  have h: "attempts (client (\<lambda>i. HttpResponse 500 JNull)) = 1
      \<and> final (client (\<lambda>i. HttpResponse 500 JNull)) = HttpResponse 500 JNull"
    by blast
  from retry_policy [of _ "\<lambda>i. etimedout"] other
  have t: "attempts (client (\<lambda>i. etimedout)) = 1"
    by blast
  from r h t show ?thesis
    by (simp add: econnreset_def etimedout_def)
qed

subsection \<open>Forward proxy\<close>





end
